theory Spec2Isabelle
  imports Complex_Main "HOL-Library.Sublist" "HOL-Library.List_Lexorder"
    "HOL-Library.Char_ord" "HOL-Library.Multiset"
begin

section \<open>Chain-of-custody client: audit trail reconstruction and ledger rendering\<close>

text \<open>
  The development embeds the reading side of
  \<^verbatim>\<open>python_client/interactive_terminal_remote.py\<close>: the peer command runner, the
  chaincode query, the genesis block resolver, the single-asset history view and the
  full ledger view.  The functions print; the embedding returns the values the source
  computes before it prints them.
\<close>

subsection \<open>Data model\<close>

text \<open>
  The gateway answers in JSON, and the source reads every key through
  \<^verbatim>\<open>dict.get(key, default)\<close>.  A key that may be missing is an \<open>option\<close> field and
  \<open>dict_get\<close> is the lookup with its default.  The values have the types of the ledger
  schema: text fields are strings, the delete flag is a boolean, a timestamp is either a
  \<^verbatim>\<open>{seconds, nanos}\<close> dictionary of integers or a string.  A record whose snapshot is
  missing has \<open>evidence = None\<close>; the source then reads the empty dictionary.  A key
  that is present with the value \<^verbatim>\<open>null\<close>, or with a value of another type than the
  schema gives it, is not part of this data model.
\<close>

definition dict_get :: "'a option \<Rightarrow> 'a \<Rightarrow> 'a" where
  "dict_get v d = (case v of None \<Rightarrow> d | Some x \<Rightarrow> x)"

record evidence =
  description :: "string option"
  owner :: "string option"
  location :: "string option"
  status :: "string option"
  tags :: "string list option"
  created_at :: "string option"
  updated_at :: "string option"

definition empty_dict :: evidence where
  "empty_dict = \<lparr>description = None, owner = None, location = None, status = None,
     tags = None, created_at = None, updated_at = None\<rparr>"

datatype timestamp = TsDict "int option" "int option" | TsStr string

record history_item =
  evidence :: "evidence option"
  isDelete :: "bool option"
  timestamp :: "timestamp option"
  txId :: "string option"

text \<open>
  The ledger view stores two more keys in every record it collects:
  \<^verbatim>\<open>record['asset_id']\<close> and \<^verbatim>\<open>record['prev_owner']\<close> (\<open>None\<close> for the last record of a
  history).
\<close>

record tx = history_item +
  asset_id :: string
  prev_owner :: "string option"

datatype action = CREATED | UPDATED | TRANSFERRED | DELETED

subsection \<open>Action classification\<close>

text \<open>
  \<^verbatim>\<open>get_history\<close>, lines 291-313: the action of \<^verbatim>\<open>data[i]\<close>.  The history is newest
  first, so \<^verbatim>\<open>data[i + 1]\<close> is the record that precedes \<^verbatim>\<open>data[i]\<close> in time.  The
  function receives \<^verbatim>\<open>data[i]\<close> and the records after it: the first of them, when
  there is one, is \<^verbatim>\<open>data[i + 1]\<close>.
\<close>

definition item_owner :: "'a history_item_scheme \<Rightarrow> string" where
  "item_owner r = dict_get (owner (dict_get (evidence r) empty_dict)) []"

definition history_action :: "history_item \<Rightarrow> history_item list \<Rightarrow> action" where
  "history_action item older =
     (let ev = dict_get (evidence item) empty_dict;
          is_delete = dict_get (isDelete item) False
      in if is_delete then DELETED
         else
           let created = dict_get (created_at ev) [];
               updated = dict_get (updated_at ev) []
           in if created = updated then CREATED
              else
                let current_owner = dict_get (owner ev) [];
                    prev = (case older of [] \<Rightarrow> None | p # _ \<Rightarrow> Some (item_owner p))
                in if prev \<noteq> None \<and> Some current_owner \<noteq> prev then TRANSFERRED
                   else UPDATED)"

fun history_actions :: "history_item list \<Rightarrow> action list" where
  "history_actions [] = []"
| "history_actions (item # older) = history_action item older # history_actions older"

text \<open>
  \<^verbatim>\<open>view_blockchain_ledger\<close>, lines 383-390: every record of one history gets the asset
  id and the owner of the next (older) record of the same history.
\<close>

fun tag_history :: "string \<Rightarrow> history_item list \<Rightarrow> tx list" where
  "tag_history ev_id [] = []"
| "tag_history ev_id (record # older) =
     history_item.extend record
       (tx.fields ev_id (case older of [] \<Rightarrow> None | p # _ \<Rightarrow> Some (item_owner p)))
     # tag_history ev_id older"

text \<open>\<^verbatim>\<open>view_blockchain_ledger\<close>, lines 438-457: the action of one collected record.\<close>

definition ledger_action :: "tx \<Rightarrow> action" where
  "ledger_action t =
     (let is_delete = dict_get (isDelete t) False;
          ev = dict_get (evidence t) empty_dict;
          prev = prev_owner t
      in if is_delete then DELETED
         else
           let created = dict_get (created_at ev) [];
               updated = dict_get (updated_at ev) []
           in if created = updated then CREATED
              else
                let current_owner = dict_get (owner ev) []
                in if prev \<noteq> None \<and> Some current_owner \<noteq> prev then TRANSFERRED
                   else UPDATED)"

subsection \<open>The peer command runner and the chaincode query\<close>

text \<open>
  \<^verbatim>\<open>subprocess.run(..., capture_output=True, text=True, check=True)\<close> either completes
  with exit status 0, or raises \<^verbatim>\<open>CalledProcessError\<close>, which carries the captured
  standard error and whose \<^verbatim>\<open>str\<close> is the message about the exit status.  These are
  the two outcomes of a command that the operating system could start.
\<close>

datatype completed =
    Completed (stdout: string) (stderr: string)
  | CalledProcessError (e_stderr: string) (e_str: string)

text \<open>
  The result dictionary of \<^verbatim>\<open>_run_peer_command\<close>.  Its \<^verbatim>\<open>"data"\<close> key holds the decoded
  JSON value or, when decoding failed, the text of standard output; a key that the
  dictionary does not have is \<open>None\<close>.
\<close>

datatype 'j payload = Parsed 'j | Raw_text string

record 'j cmd_result =
  success :: bool
  data :: "'j payload option"
  raw :: "bool option"
  cmd_output :: "string option"
  cmd_error :: "string option"

text \<open>
  \<^verbatim>\<open>_run_peer_command\<close>, lines 92-107.  \<open>loads\<close> is \<^verbatim>\<open>json.loads\<close>, with \<open>None\<close> for
  \<^verbatim>\<open>JSONDecodeError\<close>; \<open>result\<close> is what running the command gives.
\<close>

definition run_peer_command ::
  "(string \<Rightarrow> 'j option) \<Rightarrow> completed \<Rightarrow> bool \<Rightarrow> 'j cmd_result" where
  "run_peer_command loads result parse_json =
     (case result of
        Completed out err \<Rightarrow>
          if parse_json \<and> out \<noteq> [] then
            (case loads out of
               Some j \<Rightarrow> \<lparr>success = True, data = Some (Parsed j), raw = None,
                          cmd_output = None, cmd_error = None\<rparr>
             | None \<Rightarrow> \<lparr>success = True, data = Some (Raw_text out), raw = Some True,
                        cmd_output = None, cmd_error = None\<rparr>)
          else \<lparr>success = True, data = None, raw = None,
                 cmd_output = Some out, cmd_error = Some err\<rparr>
      | CalledProcessError e_err e_msg \<Rightarrow>
          let err_msg = (if e_err \<noteq> [] then e_err else e_msg)
          in if sublist ''access denied'' err_msg then
               \<lparr>success = False, data = None, raw = None, cmd_output = None,
                 cmd_error = Some ''ACCESS DENIED: User does not have permission.''\<rparr>
             else \<lparr>success = False, data = None, raw = None, cmd_output = None,
                    cmd_error = Some err_msg\<rparr>)"

text \<open>
  \<^verbatim>\<open>_run_peer_command\<close> of \<^verbatim>\<open>chain_of_custody_cli_wrapper.py\<close>, lines 45-66: the same
  without the test for a denied access.
\<close>

definition wrapper_run_peer_command ::
  "(string \<Rightarrow> 'j option) \<Rightarrow> completed \<Rightarrow> bool \<Rightarrow> 'j cmd_result" where
  "wrapper_run_peer_command loads result parse_json =
     (case result of
        Completed out err \<Rightarrow>
          if parse_json \<and> out \<noteq> [] then
            (case loads out of
               Some j \<Rightarrow> \<lparr>success = True, data = Some (Parsed j), raw = None,
                          cmd_output = None, cmd_error = None\<rparr>
             | None \<Rightarrow> \<lparr>success = True, data = Some (Raw_text out), raw = Some True,
                        cmd_output = None, cmd_error = None\<rparr>)
          else \<lparr>success = True, data = None, raw = None,
                 cmd_output = Some out, cmd_error = Some err\<rparr>
      | CalledProcessError e_err e_msg \<Rightarrow>
          \<lparr>success = False, data = None, raw = None, cmd_output = None,
            cmd_error = Some (if e_err \<noteq> [] then e_err else e_msg)\<rparr>)"

text \<open>
  \<^verbatim>\<open>query_chaincode\<close>, lines 122-129.  \<open>peer\<close> gives the outcome of the
  \<^verbatim>\<open>peer chaincode query\<close> command for a chaincode function and its arguments.
\<close>

definition query_chaincode ::
  "(string \<Rightarrow> 'j option) \<Rightarrow> (string \<Rightarrow> string list \<Rightarrow> completed) \<Rightarrow>
     string \<Rightarrow> string list \<Rightarrow> 'j payload option" where
  "query_chaincode loads peer function_name args_list =
     (let result = run_peer_command loads (peer function_name args_list) True
      in if success result then data result else None)"

subsection \<open>Collecting and sorting the transactions of all assets\<close>

text \<open>The exceptions that the modelled code can raise.\<close>

datatype exn = TypeError | KeyError | IndexError | ValueError | AttributeError | OverflowError

text \<open>
  \<^verbatim>\<open>view_blockchain_ledger\<close>, lines 375-390.  \<open>history_of\<close> is the query
  \<^verbatim>\<open>GetEvidenceHistory\<close> for one id.  A result that is \<open>None\<close>, an empty list or an empty
  text is false and the asset is skipped.  A text that is not empty is iterated
  character by character, and the assignment \<^verbatim>\<open>record['asset_id'] = ev_id\<close> to its first
  character raises \<^verbatim>\<open>TypeError\<close>.
\<close>

fun collect_txs ::
  "(string \<Rightarrow> history_item list payload option) \<Rightarrow> string list \<Rightarrow> exn + tx list" where
  "collect_txs history_of [] = Inr []"
| "collect_txs history_of (ev_id # rest) =
     (if ev_id = [] then collect_txs history_of rest
      else case history_of ev_id of
             None \<Rightarrow> collect_txs history_of rest
           | Some (Raw_text s) \<Rightarrow>
               if s = [] then collect_txs history_of rest else Inl TypeError
           | Some (Parsed history) \<Rightarrow>
               (case collect_txs history_of rest of
                  Inl e \<Rightarrow> Inl e
                | Inr later \<Rightarrow> Inr (tag_history ev_id history @ later)))"

text \<open>
  \<^verbatim>\<open>get_sort_key\<close>, lines 393-397.  For a dictionary the key is the float
  \<^verbatim>\<open>seconds + nanos / 1e9\<close>; \<open>fl\<close> stands for this float arithmetic and maps the two
  integers to a value of a linearly ordered type; nothing else is assumed of it, so
  rounding may give two timestamps the same key.  Otherwise the key is the timestamp
  itself, or the empty string when the timestamp is missing.
\<close>

datatype 'f sort_key = KFloat 'f | KStr string

definition get_sort_key :: "(int \<Rightarrow> int \<Rightarrow> 'f) \<Rightarrow> 'a history_item_scheme \<Rightarrow> 'f sort_key" where
  "get_sort_key fl t =
     (case timestamp t of
        Some (TsDict seconds nanos) \<Rightarrow> KFloat (fl (dict_get seconds 0) (dict_get nanos 0))
      | Some (TsStr s) \<Rightarrow> KStr s
      | None \<Rightarrow> KStr [])"

text \<open>
  \<^verbatim>\<open>all_txs.sort(key=get_sort_key)\<close>, line 399.  Python computes the key of every
  element, sorts the elements by their keys with a stable sort that compares with
  \<^verbatim>\<open><\<close>, and drops the keys.  A float and a string do not compare: a list that holds
  keys of both kinds raises \<^verbatim>\<open>TypeError\<close>.  \<open>float_keys\<close> pairs every element with its
  float key and is \<open>None\<close> when some key is a string; \<open>str_keys\<close> is its mirror image.
\<close>

fun float_keys :: "('a \<Rightarrow> 'f sort_key) \<Rightarrow> 'a list \<Rightarrow> ('f \<times> 'a) list option" where
  "float_keys key [] = Some []"
| "float_keys key (x # xs) =
     (case key x of
        KFloat f \<Rightarrow> map_option ((#) (f, x)) (float_keys key xs)
      | KStr _ \<Rightarrow> None)"

fun str_keys :: "('a \<Rightarrow> 'f sort_key) \<Rightarrow> 'a list \<Rightarrow> (string \<times> 'a) list option" where
  "str_keys key [] = Some []"
| "str_keys key (x # xs) =
     (case key x of
        KStr s \<Rightarrow> map_option ((#) (s, x)) (str_keys key xs)
      | KFloat _ \<Rightarrow> None)"

definition list_sort ::
  "('a \<Rightarrow> ('f::linorder) sort_key) \<Rightarrow> 'a list \<Rightarrow> exn + 'a list" where
  "list_sort key xs =
     (case float_keys key xs of
        Some keyed \<Rightarrow> Inr (map snd (sort_key fst keyed))
      | None \<Rightarrow>
          (case str_keys key xs of
             Some keyed \<Rightarrow> Inr (map snd (sort_key fst keyed))
           | None \<Rightarrow> Inl TypeError))"

text \<open>Lines 375-399 together: the sorted list \<^verbatim>\<open>all_txs\<close>.\<close>

definition merge_ledger ::
  "(int \<Rightarrow> int \<Rightarrow> 'f::linorder) \<Rightarrow> (string \<Rightarrow> history_item list payload option) \<Rightarrow>
     string list \<Rightarrow> exn + tx list" where
  "merge_ledger fl history_of ids =
     (case collect_txs history_of ids of
        Inl e \<Rightarrow> Inl e
      | Inr all_txs \<Rightarrow> list_sort (get_sort_key fl) all_txs)"


subsection \<open>The classification rule in the words of the specification\<close>

text \<open>
  \<open>classify\<close> is written from section 4.2 of the specification, not from the source: an
  entry and, when there is one, the entry of the same asset that precedes it in time.
  The fields of the snapshot are read as the source reads them, with the empty string
  for a field or a snapshot that is missing.
\<close>

definition item_created_at :: "'a history_item_scheme \<Rightarrow> string" where
  "item_created_at r = dict_get (created_at (dict_get (evidence r) empty_dict)) []"

definition item_updated_at :: "'a history_item_scheme \<Rightarrow> string" where
  "item_updated_at r = dict_get (updated_at (dict_get (evidence r) empty_dict)) []"

definition item_is_delete :: "'a history_item_scheme \<Rightarrow> bool" where
  "item_is_delete r = dict_get (isDelete r) False"

definition classify :: "history_item \<Rightarrow> history_item option \<Rightarrow> action" where
  "classify e p =
     (if item_is_delete e then DELETED
      else if item_created_at e = item_updated_at e then CREATED
      else case p of
             None \<Rightarrow> UPDATED
           | Some q \<Rightarrow> if item_owner e \<noteq> item_owner q then TRANSFERRED else UPDATED)"

text \<open>
  In a history that is newest first, the predecessor in time of a record is the first
  of the records that follow it.
\<close>

definition predecessor :: "history_item list \<Rightarrow> history_item option" where
  "predecessor older = (case older of [] \<Rightarrow> None | p # _ \<Rightarrow> Some p)"

subsection \<open>Sample records\<close>

definition snapshot :: "string \<Rightarrow> string \<Rightarrow> string \<Rightarrow> evidence" where
  "snapshot own created updated =
     \<lparr>description = Some ''laptop'', owner = Some own, location = Some ''locker 4'',
       status = Some ''stored'', tags = Some [], created_at = Some created,
       updated_at = Some updated\<rparr>"

definition record_at :: "string \<Rightarrow> int \<Rightarrow> evidence \<Rightarrow> history_item" where
  "record_at tx_id secs ev =
     \<lparr>evidence = Some ev, isDelete = Some False,
       timestamp = Some (TsDict (Some secs) (Some 0)), txId = Some tx_id\<rparr>"

definition delete_at :: "string \<Rightarrow> int \<Rightarrow> history_item" where
  "delete_at tx_id secs =
     \<lparr>evidence = None, isDelete = Some True,
       timestamp = Some (TsDict (Some secs) (Some 0)), txId = Some tx_id\<rparr>"

subsection \<open>The first part of the ledger view\<close>

text \<open>
  \<^verbatim>\<open>view_blockchain_ledger\<close>, lines 363-405: what the function prints before it draws
  the chain, and the sorted list it draws the chain from.  The ids and the histories
  are decoded by \<open>loads_ids\<close> and \<open>loads_history\<close>, which are \<^verbatim>\<open>json.loads\<close> on the
  answers to the two queries.  An answer that is a text is true when it is not empty,
  has the length of the text and is iterated character by character.
\<close>

datatype message =
    Banner string
  | Fetching
  | No_evidence
  | No_transactions
  | Found nat nat

datatype collected = Return "message list" | Continue "message list" "tx list"

definition is_true :: "'a list payload \<Rightarrow> bool" where
  "is_true p = (case p of Parsed xs \<Rightarrow> xs \<noteq> [] | Raw_text s \<Rightarrow> s \<noteq> [])"

definition iterate :: "string list payload \<Rightarrow> string list" where
  "iterate p = (case p of Parsed ids \<Rightarrow> ids | Raw_text s \<Rightarrow> map (\<lambda>c. [c]) s)"

definition get_evidence_history ::
  "(string \<Rightarrow> history_item list option) \<Rightarrow> (string \<Rightarrow> string list \<Rightarrow> completed) \<Rightarrow>
     string \<Rightarrow> history_item list payload option" where
  "get_evidence_history loads_history peer ev_id =
     query_chaincode loads_history peer ''GetEvidenceHistory'' [ev_id]"

definition collect_ledger ::
  "(string \<Rightarrow> string list option) \<Rightarrow> (string \<Rightarrow> history_item list option) \<Rightarrow>
     (string \<Rightarrow> string list \<Rightarrow> completed) \<Rightarrow> (int \<Rightarrow> int \<Rightarrow> 'f::linorder) \<Rightarrow>
     string \<Rightarrow> exn + collected" where
  "collect_ledger loads_ids loads_history peer fl friendly_name =
     (let shown = [Banner friendly_name, Fetching]
      in case query_chaincode loads_ids peer ''GetAllEvidenceIDs'' [] of
           None \<Rightarrow> Inr (Return (shown @ [No_evidence]))
         | Some all_evidence_ids \<Rightarrow>
             if \<not> is_true all_evidence_ids then Inr (Return (shown @ [No_evidence]))
             else
               (case merge_ledger fl (get_evidence_history loads_history peer)
                       (iterate all_evidence_ids) of
                  Inl e \<Rightarrow> Inl e
                | Inr all_txs \<Rightarrow>
                    if all_txs = [] then Inr (Return (shown @ [No_transactions]))
                    else Inr (Continue
                           (shown @ [Found (length all_txs)
                                       (length (iterate all_evidence_ids))])
                           all_txs)))"

subsection \<open>Notions used to state the properties of the merge\<close>

text \<open>
  The history that the ledger view collects for an id: the decoded list, and nothing
  for the empty id, a failed query or an empty answer.  \<open>raw_answer\<close> holds when the
  query for the id gave a text that could not be decoded.
\<close>

definition fetched :: "(string \<Rightarrow> history_item list payload option) \<Rightarrow> string \<Rightarrow> history_item list" where
  "fetched history_of ev_id =
     (if ev_id = [] then []
      else case history_of ev_id of Some (Parsed history) \<Rightarrow> history | _ \<Rightarrow> [])"

definition raw_answer :: "(string \<Rightarrow> history_item list payload option) \<Rightarrow> string \<Rightarrow> bool" where
  "raw_answer history_of ev_id =
     (ev_id \<noteq> [] \<and>
      (case history_of ev_id of Some (Raw_text s) \<Rightarrow> s \<noteq> [] | _ \<Rightarrow> False))"

definition has_struct_time :: "'a history_item_scheme \<Rightarrow> bool" where
  "has_struct_time r = (case timestamp r of Some (TsDict _ _) \<Rightarrow> True | _ \<Rightarrow> False)"

text \<open>
  The tie-break of section 4.3 in the words of the specification.  Within one asset,
  the entries that share a sort key stand in the order of the oldest-first pass over
  the asset's history, which is the reverse of the fetched list.  Across assets, of
  two entries that share a sort key the one with the smaller asset id comes first.
\<close>

definition ties_follow_oldest_first ::
  "(tx \<Rightarrow> 'k) \<Rightarrow> (string \<Rightarrow> history_item list payload option) \<Rightarrow> string list \<Rightarrow>
     tx list \<Rightarrow> bool" where
  "ties_follow_oldest_first key history_of ids txs =
     list_all (\<lambda>ev_id. list_all (\<lambda>k.
         filter (\<lambda>t. asset_id t = ev_id \<and> key t = k) txs
           = filter (\<lambda>t. key t = k) (rev (tag_history ev_id (fetched history_of ev_id))))
       (map key txs)) ids"

definition ties_follow_asset_id :: "(tx \<Rightarrow> 'k) \<Rightarrow> tx list \<Rightarrow> bool" where
  "ties_follow_asset_id key txs =
     list_all (\<lambda>j. list_all (\<lambda>i.
         key (txs ! i) = key (txs ! j) \<and> asset_id (txs ! i) \<noteq> asset_id (txs ! j)
           \<longrightarrow> asset_id (txs ! i) < asset_id (txs ! j))
       [0..<j]) [0..<length txs]"

text \<open>
  Float arithmetic without rounding, for the sample runs: on the inputs used there,
  whole seconds and no nanoseconds, \<^verbatim>\<open>seconds + nanos / 1e9\<close> is exact.
\<close>

definition exact :: "int \<Rightarrow> int \<Rightarrow> rat" where
  "exact seconds nanos = of_int seconds + of_int nanos / 1000000000"

text \<open>
  A sample gateway.  Asset \<open>B\<close> was created and, in the same second, transferred;
  asset \<open>A\<close> was created in that second too.  The query for \<open>C\<close> exits with an error.
  The two decoders stand for \<^verbatim>\<open>json.loads\<close> on the texts that this gateway prints.
\<close>

definition sample_peer :: "string \<Rightarrow> string list \<Rightarrow> completed" where
  "sample_peer function_name args_list =
     (if function_name = ''GetAllEvidenceIDs'' then Completed ''[B, C, A]'' []
      else if args_list = [''B''] then Completed ''history of B'' []
      else if args_list = [''A''] then Completed ''history of A'' []
      else CalledProcessError ''Error: endorsement failure'' ''exit status 1'')"

definition sample_loads_ids :: "string \<Rightarrow> string list option" where
  "sample_loads_ids s = (if s = ''[B, C, A]'' then Some [''B'', ''C'', ''A''] else None)"

definition sample_loads_history :: "string \<Rightarrow> history_item list option" where
  "sample_loads_history s =
     (if s = ''history of B'' then
        Some [record_at ''b2'' 10 (snapshot ''bob'' ''d1'' ''d2''),
              record_at ''b1'' 10 (snapshot ''amy'' ''d1'' ''d1'')]
      else if s = ''history of A'' then
        Some [record_at ''a1'' 10 (snapshot ''carl'' ''d1'' ''d1'')]
      else if s = ''[]'' then Some []
      else None)"

text \<open>The same gateway, except that asset \<open>C\<close> has an empty history.\<close>

definition sample_peer_empty :: "string \<Rightarrow> string list \<Rightarrow> completed" where
  "sample_peer_empty function_name args_list =
     (if function_name = ''GetEvidenceHistory'' \<and> args_list = [''C'']
      then Completed ''[]'' []
      else sample_peer function_name args_list)"

definition sample_history_of :: "string \<Rightarrow> history_item list payload option" where
  "sample_history_of = get_evidence_history sample_loads_history sample_peer"

definition sample_ids :: "string list" where
  "sample_ids = [''B'', ''C'', ''A'']"

text \<open>What a run of the first part of the view printed, when it did not raise.\<close>

definition messages_of :: "exn + collected \<Rightarrow> message list option" where
  "messages_of r =
     (case r of
        Inl _ \<Rightarrow> None
      | Inr (Return shown) \<Rightarrow> Some shown
      | Inr (Continue shown _) \<Rightarrow> Some shown)"

text \<open>A gateway whose query succeeds and prints nothing.\<close>

definition silent_peer :: "string \<Rightarrow> string list \<Rightarrow> completed" where
  "silent_peer function_name args_list = Completed [] []"

definition sample_merged :: "tx list" where
  "sample_merged =
     (case merge_ledger exact sample_history_of sample_ids of
        Inr txs \<Rightarrow> txs
      | Inl _ \<Rightarrow> [])"

subsection \<open>The genesis block\<close>

text \<open>
  The decoded block is an arbitrary JSON value.  An object is an association list that
  is read with \<open>map_of\<close>; numbers are integers.
\<close>

datatype json =
    JNull
  | JBool bool
  | JInt int
  | JStr string
  | JArr "json list"
  | JObj "(string \<times> json) list"

text \<open>
  \<^verbatim>\<open>value[key]\<close> for a string key, \<^verbatim>\<open>value[0]\<close>, and \<^verbatim>\<open>value.get(key, default)\<close>, with
  the exceptions that Python raises for them.
\<close>

fun subscript :: "json \<Rightarrow> string \<Rightarrow> exn + json" where
  "subscript (JObj kvs) key = (case map_of kvs key of None \<Rightarrow> Inl KeyError | Some v \<Rightarrow> Inr v)"
| "subscript _ key = Inl TypeError"

fun subscript_0 :: "json \<Rightarrow> exn + json" where
  "subscript_0 (JArr []) = Inl IndexError"
| "subscript_0 (JArr (x # _)) = Inr x"
| "subscript_0 (JStr []) = Inl IndexError"
| "subscript_0 (JStr (c # _)) = Inr (JStr [c])"
| "subscript_0 (JObj _) = Inl KeyError"
| "subscript_0 _ = Inl TypeError"

fun json_get :: "json \<Rightarrow> string \<Rightarrow> json \<Rightarrow> exn + json" where
  "json_get (JObj kvs) key d = Inr (dict_get (map_of kvs key) d)"
| "json_get _ key d = Inl AttributeError"

definition bind :: "exn + 'a \<Rightarrow> ('a \<Rightarrow> exn + 'b) \<Rightarrow> exn + 'b" where
  "bind m f = (case m of Inl e \<Rightarrow> Inl e | Inr x \<Rightarrow> f x)"

text \<open>
  What \<^verbatim>\<open>get_genesis_block\<close> takes from outside the program.  \<open>fetch_block\<close> is the
  outcome of \<^verbatim>\<open>peer channel fetch 0\<close> and the bytes it wrote to the block file, if it
  wrote the file.  \<open>proto_decode\<close> is the outcome of \<^verbatim>\<open>configtxlator proto_decode\<close> on
  these bytes and the text it wrote to the JSON file, if it wrote the file.  The other
  fields are library functions: \<^verbatim>\<open>json.load\<close>, \<^verbatim>\<open>int\<close> on a string (\<open>None\<close> for
  \<^verbatim>\<open>ValueError\<close>), \<^verbatim>\<open>datetime.fromtimestamp\<close> followed by \<^verbatim>\<open>strftime\<close>, \<^verbatim>\<open>str\<close> on a
  value that is not a string, and \<^verbatim>\<open>base64.b64decode\<close> followed by \<^verbatim>\<open>hexlify\<close> (\<open>None\<close>
  when the decoding raises).
\<close>

record genesis_env =
  fetch_block :: "completed \<times> string option"
  configtxlator_exists :: bool
  proto_decode :: "string \<Rightarrow> completed \<times> string option"
  json_load :: "string \<Rightarrow> json option"
  int_of_str :: "string \<Rightarrow> int option"
  local_strftime :: "int \<Rightarrow> exn + string"
  str_of_json :: "json \<Rightarrow> string"
  b64_to_hex :: "string \<Rightarrow> string option"

text \<open>The two temporary files: the content of each, when the file exists.\<close>

record files =
  block_file :: "string option"
  json_file :: "string option"

text \<open>The dictionary that \<^verbatim>\<open>get_genesis_block\<close> returns.\<close>

record genesis_info =
  info_timestamp :: string
  info_hash :: json

text \<open>\<^verbatim>\<open>int(value)\<close> on a JSON value.\<close>

fun py_int :: "(string \<Rightarrow> int option) \<Rightarrow> json \<Rightarrow> exn + int" where
  "py_int parse (JInt n) = Inr n"
| "py_int parse (JBool b) = Inr (if b then 1 else 0)"
| "py_int parse (JStr s) = (case parse s of None \<Rightarrow> Inl ValueError | Some n \<Rightarrow> Inr n)"
| "py_int parse _ = Inl TypeError"

text \<open>
  Lines 193-201: the timestamp of the first envelope, before the handler of line 202.
\<close>

definition raw_timestamp :: "json \<Rightarrow> exn + json" where
  "raw_timestamp block_data =
     bind (subscript block_data ''data'') (\<lambda>d1.
     bind (subscript d1 ''data'') (\<lambda>d2.
     bind (subscript_0 d2) (\<lambda>env.
     bind (subscript env ''payload'') (\<lambda>p.
     bind (subscript p ''header'') (\<lambda>h.
     bind (subscript h ''channel_header'') (\<lambda>c.
     subscript c ''timestamp''))))))"

definition format_timestamp :: "genesis_env \<Rightarrow> json \<Rightarrow> exn + string" where
  "format_timestamp env ts_raw =
     (case ts_raw of
        JObj kvs \<Rightarrow>
          bind (py_int (int_of_str env) (dict_get (map_of kvs ''seconds'') (JInt 0)))
            (local_strftime env)
      | JStr s \<Rightarrow>
          Inr (takeWhile (\<lambda>c. c \<noteq> CHR ''.'')
                 (map (\<lambda>c. if c = CHR ''T'' then CHR '' '' else c) s))
      | other \<Rightarrow>
          Inr (takeWhile (\<lambda>c. c \<noteq> CHR ''.'')
                 (map (\<lambda>c. if c = CHR ''T'' then CHR '' '' else c) (str_of_json env other))))"

text \<open>
  Lines 192-203: \<^verbatim>\<open>KeyError\<close>, \<^verbatim>\<open>IndexError\<close> and \<^verbatim>\<open>ValueError\<close> give the timestamp
  \<^verbatim>\<open>"Unknown Format"\<close>; any other exception leaves the block.
\<close>

definition extract_timestamp :: "genesis_env \<Rightarrow> json \<Rightarrow> exn + string" where
  "extract_timestamp env block_data =
     (case bind (raw_timestamp block_data) (format_timestamp env) of
        Inr ts \<Rightarrow> Inr ts
      | Inl e \<Rightarrow>
          if e = KeyError \<or> e = IndexError \<or> e = ValueError then Inr ''Unknown Format''
          else Inl e)"

text \<open>
  Lines 206-213: the data hash.  When the decoding raises, whatever the reason, the
  hash is the value of \<^verbatim>\<open>data_hash\<close> itself.
\<close>

definition extract_hash :: "genesis_env \<Rightarrow> json \<Rightarrow> exn + json" where
  "extract_hash env block_data =
     bind (json_get block_data ''header'' (JObj [])) (\<lambda>header.
     bind (json_get header ''data_hash'' (JStr [])) (\<lambda>data_hash_b64.
       Inr (case data_hash_b64 of
              JStr s \<Rightarrow> (case b64_to_hex env s of
                           Some hex \<Rightarrow> JStr hex
                         | None \<Rightarrow> data_hash_b64)
            | _ \<Rightarrow> data_hash_b64)))"

text \<open>Lines 190-218, the body of the outer \<^verbatim>\<open>try\<close> after the JSON file is removed.\<close>

definition extract_fields :: "genesis_env \<Rightarrow> json \<Rightarrow> exn + genesis_info" where
  "extract_fields env block_data =
     bind (extract_timestamp env block_data) (\<lambda>ts.
     bind (extract_hash env block_data) (\<lambda>data_hash_hex.
       Inr \<lparr>info_timestamp = ts, info_hash = data_hash_hex\<rparr>))"

definition sentinel :: "string \<Rightarrow> genesis_info" where
  "sentinel diagnostic = \<lparr>info_timestamp = diagnostic, info_hash = JStr ''N/A''\<rparr>"

text \<open>
  \<^verbatim>\<open>get_genesis_block\<close>, lines 131-226: the dictionary it returns and the temporary
  files it leaves.  Removing a file sets its content to \<open>None\<close>.
\<close>

definition get_genesis_block :: "genesis_env \<Rightarrow> files \<Rightarrow> genesis_info \<times> files" where
  "get_genesis_block env fs0 =
     (let fs1 = fs0\<lparr>block_file := None\<rparr>;
          fs2 = fs1\<lparr>json_file := None\<rparr>;
          fs3 = (case snd (fetch_block env) of
                   None \<Rightarrow> fs2
                 | Some bytes \<Rightarrow> fs2\<lparr>block_file := Some bytes\<rparr>)
      in case block_file fs3 of
           None \<Rightarrow> (sentinel ''Fetch Failed'', fs3)
         | Some bytes \<Rightarrow>
             if \<not> configtxlator_exists env then (sentinel ''Tool Missing'', fs3)
             else
               let result = run_peer_command (\<lambda>s. None :: unit option)
                              (fst (proto_decode env bytes)) False;
                   fs4 = (case snd (proto_decode env bytes) of
                            None \<Rightarrow> fs3
                          | Some written \<Rightarrow> fs3\<lparr>json_file := Some written\<rparr>);
                   fs5 = fs4\<lparr>block_file := None\<rparr>
               in if \<not> success result then
                    (sentinel ''Decode Failed'', fs5\<lparr>json_file := None\<rparr>)
                  else
                    (case json_file fs5 of
                       None \<Rightarrow> (sentinel ''No Output'', fs5)
                     | Some content \<Rightarrow>
                         (case json_load env content of
                            None \<Rightarrow> (sentinel ''Parse Error'', fs5\<lparr>json_file := None\<rparr>)
                          | Some block_data \<Rightarrow>
                              let fs6 = fs5\<lparr>json_file := None\<rparr>
                              in (case extract_fields env block_data of
                                    Inr info \<Rightarrow> (info, fs6)
                                  | Inl e \<Rightarrow> (sentinel ''Error'', fs6)))))"

subsection \<open>Drawing the chain\<close>

text \<open>
  \<^verbatim>\<open>view_blockchain_ledger\<close>, lines 426-489: the values of one turn of the loop.
  \<open>ce_prev_hash\<close> is \<^verbatim>\<open>prev_hash\<close> when the box is printed; the box shows the first 52
  characters of it and of the transaction id.
\<close>

record details =
  d_owner :: string
  d_description :: string
  d_location :: string
  d_status :: string

record chain_entry =
  ce_action :: action
  ce_time :: string
  ce_tx_id :: string
  ce_prev_hash :: string
  ce_asset_id :: string
  ce_details :: "details option"

definition shown :: "string \<Rightarrow> string" where
  "shown s = take 52 s"

definition shorten :: "string \<Rightarrow> string" where
  "shorten s = (if length s > 50 then take 47 s @ ''...'' else s)"

definition formatted_time :: "(int \<Rightarrow> exn + string) \<Rightarrow> tx \<Rightarrow> exn + string" where
  "formatted_time strftime t =
     (case timestamp t of
        Some (TsDict seconds nanos) \<Rightarrow> strftime (dict_get seconds 0)
      | Some (TsStr s) \<Rightarrow> Inr s
      | None \<Rightarrow> Inr ''N/A'')"

definition tx_details :: "tx \<Rightarrow> details option" where
  "tx_details t =
     (let ev = dict_get (evidence t) empty_dict
      in if dict_get (isDelete t) False then None
         else Some \<lparr>d_owner = dict_get (owner ev) ''N/A'',
                     d_description = shorten (dict_get (description ev) ''N/A''),
                     d_location = shorten (dict_get (location ev) ''N/A''),
                     d_status = dict_get (status ev) ''N/A''\<rparr>)"

fun render :: "(int \<Rightarrow> exn + string) \<Rightarrow> string \<Rightarrow> tx list \<Rightarrow> exn + chain_entry list" where
  "render strftime prev_hash [] = Inr []"
| "render strftime prev_hash (t # rest) =
     (let tx_id = dict_get (txId t) ''N/A''
      in case formatted_time strftime t of
           Inl e \<Rightarrow> Inl e
         | Inr time \<Rightarrow>
             (case render strftime tx_id rest of
                Inl e \<Rightarrow> Inl e
              | Inr entries \<Rightarrow>
                  Inr (\<lparr>ce_action = ledger_action t, ce_time = time, ce_tx_id = tx_id,
                         ce_prev_hash = prev_hash, ce_asset_id = asset_id t,
                         ce_details = tx_details t\<rparr> # entries)))"

text \<open>
  Lines 408-413: the hash that roots the chain.  Lines 416-489: the genesis box needs
  \<^verbatim>\<open>genesis_hash[:52]\<close> to be a text that can be padded, so a hash that is not a
  string raises; then the loop runs.
\<close>

definition anchor_hash :: "genesis_info \<Rightarrow> json" where
  "anchor_hash genesis_info =
     (if info_hash genesis_info = JStr ''N/A'' then JStr (replicate 56 CHR ''0'')
      else info_hash genesis_info)"

definition draw_chain ::
  "(int \<Rightarrow> exn + string) \<Rightarrow> genesis_info \<Rightarrow> tx list \<Rightarrow> exn + chain_entry list" where
  "draw_chain strftime genesis_info all_txs =
     (case anchor_hash genesis_info of
        JStr genesis_hash \<Rightarrow> render strftime genesis_hash all_txs
      | _ \<Rightarrow> Inl TypeError)"

text \<open>\<^verbatim>\<open>view_blockchain_ledger\<close> as a whole.\<close>

record view =
  printed :: "message list"
  genesis_box :: "(string \<times> string) option"
  chain :: "chain_entry list"
  left_files :: files

definition view_blockchain_ledger ::
  "(string \<Rightarrow> string list option) \<Rightarrow> (string \<Rightarrow> history_item list option) \<Rightarrow>
     (string \<Rightarrow> string list \<Rightarrow> completed) \<Rightarrow> (int \<Rightarrow> int \<Rightarrow> 'f::linorder) \<Rightarrow>
     string \<Rightarrow> genesis_env \<Rightarrow> files \<Rightarrow> exn + view" where
  "view_blockchain_ledger loads_ids loads_history peer fl friendly_name env fs =
     (case collect_ledger loads_ids loads_history peer fl friendly_name of
        Inl e \<Rightarrow> Inl e
      | Inr (Return shown_lines) \<Rightarrow>
          Inr \<lparr>printed = shown_lines, genesis_box = None, chain = [], left_files = fs\<rparr>
      | Inr (Continue shown_lines all_txs) \<Rightarrow>
          (let (genesis_info, fs') = get_genesis_block env fs
           in case draw_chain (local_strftime env) genesis_info all_txs of
                Inl e \<Rightarrow> Inl e
              | Inr entries \<Rightarrow>
                  Inr \<lparr>printed = shown_lines,
                        genesis_box = (case anchor_hash genesis_info of
                                         JStr h \<Rightarrow> Some (info_timestamp genesis_info, shown h)
                                       | _ \<Rightarrow> None),
                        chain = entries, left_files = fs'\<rparr>))"

subsection \<open>Notions and samples for the genesis block and the chain\<close>



definition no_files :: files where
  "no_files = \<lparr>block_file = None, json_file = None\<rparr>"

text \<open>
  A sample block as \<^verbatim>\<open>configtxlator\<close> decodes it, and a block that has its header but
  no envelope.  The base64 text \<^verbatim>\<open>q80=\<close> is the two bytes \<^verbatim>\<open>ab cd\<close>.
\<close>

definition sample_block :: json where
  "sample_block =
     JObj [(''header'', JObj [(''number'', JStr ''0''), (''data_hash'', JStr ''q80='')]),
           (''data'', JObj [(''data'', JArr [JObj [(''payload'', JObj [(''header'',
              JObj [(''channel_header'',
                JObj [(''timestamp'', JStr ''2023-11-14T22:13:20.123Z'')])])])]])])]"

definition headed_block :: json where
  "headed_block = JObj [(''header'', JObj [(''number'', JStr ''0''), (''data_hash'', JStr ''q80='')])]"

text \<open>
  A sample environment in which every step succeeds.  The fetched bytes and the decoded
  texts are named rather than spelled out; \<open>json_load\<close> maps the names to the blocks.
\<close>

definition sample_env :: genesis_env where
  "sample_env =
     \<lparr>fetch_block = (Completed [] ''Received block: 0'', Some ''block 0''),
       configtxlator_exists = True,
       proto_decode = (\<lambda>bytes. (Completed [] [], Some ''sample block'')),
       json_load = (\<lambda>s. if s = ''sample block'' then Some sample_block
                          else if s = ''headed block'' then Some headed_block
                          else if s = ''{}'' then Some (JObj [])
                          else if s = ''[]'' then Some (JArr [])
                          else None),
       int_of_str = (\<lambda>s. if s = ''1700000000'' then Some 1700000000 else None),
       local_strftime = (\<lambda>seconds. Inr ''2023-11-14 22:13:20''),
       str_of_json = (\<lambda>v. ''None''),
       b64_to_hex = (\<lambda>s. if s = [] then Some [] else if s = ''q80='' then Some ''abcd''
                           else None)\<rparr>"


definition env_tool_missing :: genesis_env where
  "env_tool_missing = sample_env\<lparr>configtxlator_exists := False\<rparr>"








subsection \<open>The single-asset history view as a whole\<close>

text \<open>
  \<^verbatim>\<open>get_history\<close>, lines 264-349: nothing is drawn when the query gives no list or an
  empty one; otherwise every record gets a box with its action, its time, its
  transaction id and, unless it is a delete, the fields of its snapshot.  A record
  without timestamp is read as the empty dictionary, whose seconds are 0.
\<close>

record history_box =
  hb_action :: action
  hb_time :: string
  hb_tx_id :: string
  hb_details :: "(details \<times> string) option"

fun join :: "string \<Rightarrow> string list \<Rightarrow> string" where
  "join sep [] = []"
| "join sep [s] = s"
| "join sep (s # t # rest) = s @ sep @ join sep (t # rest)"

definition history_time :: "(int \<Rightarrow> exn + string) \<Rightarrow> history_item \<Rightarrow> exn + string" where
  "history_time strftime item =
     (case timestamp item of
        Some (TsDict seconds nanos) \<Rightarrow> strftime (dict_get seconds 0)
      | Some (TsStr s) \<Rightarrow> Inr s
      | None \<Rightarrow> strftime 0)"

definition history_details :: "history_item \<Rightarrow> (details \<times> string) option" where
  "history_details item =
     (let ev = dict_get (evidence item) empty_dict
      in if dict_get (isDelete item) False then None
         else
           let tag_list = dict_get (tags ev) [];
               tags_str = (if tag_list \<noteq> [] then join '', '' tag_list else ''None'')
           in Some (\<lparr>d_owner = dict_get (owner ev) ''N/A'',
                       d_description = shorten (dict_get (description ev) ''N/A''),
                       d_location = shorten (dict_get (location ev) ''N/A''),
                       d_status = dict_get (status ev) ''N/A''\<rparr>,
                     shorten tags_str))"

fun history_boxes ::
  "(int \<Rightarrow> exn + string) \<Rightarrow> history_item list \<Rightarrow> exn + history_box list" where
  "history_boxes strftime [] = Inr []"
| "history_boxes strftime (item # older) =
     (case history_time strftime item of
        Inl e \<Rightarrow> Inl e
      | Inr time \<Rightarrow>
          (case history_boxes strftime older of
             Inl e \<Rightarrow> Inl e
           | Inr boxes \<Rightarrow>
               Inr (\<lparr>hb_action = history_action item older, hb_time = time,
                      hb_tx_id = dict_get (txId item) ''N/A'',
                      hb_details = history_details item\<rparr> # boxes)))"

definition get_history ::
  "(string \<Rightarrow> history_item list option) \<Rightarrow> (string \<Rightarrow> string list \<Rightarrow> completed) \<Rightarrow>
     (int \<Rightarrow> exn + string) \<Rightarrow> string \<Rightarrow> exn + history_box list option" where
  "get_history loads_history peer strftime ev_id =
     (case query_chaincode loads_history peer ''GetEvidenceHistory'' [ev_id] of
        Some (Parsed data_list) \<Rightarrow>
          if data_list = [] then Inr None
          else (case history_boxes strftime data_list of
                  Inl e \<Rightarrow> Inl e
                | Inr boxes \<Rightarrow> Inr (Some boxes))
      | _ \<Rightarrow> Inr None)"

section \<open>Properties\<close>

subsection \<open>Classification\<close>

lemma tag_history_nth:
  "tag_history ev_id (newer @ e # older) ! length newer =
     history_item.extend e
       (tx.fields ev_id (case older of [] \<Rightarrow> None | p # _ \<Rightarrow> Some (item_owner p)))"
  by (induction newer) simp_all

lemma history_actions_nth:
  "history_actions (newer @ e # older) ! length newer = history_action e older"
  by (induction newer) simp_all

lemma ledger_action_extend:
  "ledger_action (history_item.extend e (tx.fields ev_id po)) =
     (if item_is_delete e then DELETED
      else if item_created_at e = item_updated_at e then CREATED
      else if po \<noteq> None \<and> Some (item_owner e) \<noteq> po then TRANSFERRED
      else UPDATED)"
  by (simp add: ledger_action_def item_is_delete_def item_created_at_def
      item_updated_at_def item_owner_def history_item.defs tx.defs Let_def)

lemma history_action_unfold:
  "history_action e older =
     (if item_is_delete e then DELETED
      else if item_created_at e = item_updated_at e then CREATED
      else if older \<noteq> [] \<and> item_owner e \<noteq> item_owner (hd older) then TRANSFERRED
      else UPDATED)"
  by (cases older)
    (simp_all add: history_action_def item_is_delete_def item_created_at_def
      item_updated_at_def item_owner_def Let_def)

text \<open>
  Claim C1.  Take any history of one asset, newest first, and any record \<open>e\<close> in it;
  \<open>newer\<close> are the records before \<open>e\<close> in the list and \<open>older\<close> the records after it.
  The action that the ledger view computes for \<open>e\<close>, and the action that the history
  view computes for \<open>e\<close>, is the action of the rule of section 4.2 applied to \<open>e\<close> and
  its predecessor in time: DELETED for a delete, else CREATED when the two dates are
  equal, else TRANSFERRED when there is a predecessor with another owner, else UPDATED.
\<close>

theorem C1_classifier_rule:
  "ledger_action (tag_history ev_id (newer @ e # older) ! length newer)
     = classify e (predecessor older)
   \<and> history_actions (newer @ e # older) ! length newer
     = classify e (predecessor older)"
  by (cases older)
    (simp_all add: tag_history_nth history_actions_nth ledger_action_extend
      history_action_unfold classify_def predecessor_def)

text \<open>
  Claim C9.  For every history of one asset, the actions that the single-asset history
  view assigns to the records, in the order of the list, are the actions that the
  ledger view assigns to the same records once it has tagged them with the owner of
  their predecessor.
\<close>

theorem C9_same_rule_in_both_views:
  "history_actions data_list = map ledger_action (tag_history ev_id data_list)"
proof (induction data_list)
  case Nil
  show ?case by simp
next
  case (Cons item older)
  have "history_action item older =
      ledger_action (history_item.extend item
        (tx.fields ev_id (case older of [] \<Rightarrow> None | p # _ \<Rightarrow> Some (item_owner p))))"
    by (cases older) (simp_all add: ledger_action_extend history_action_unfold)
  with Cons.IH show ?case by simp
qed

text \<open>
  Claim C10.  Let \<open>e\<close> be a record that is not a delete and whose two dates differ, and
  let its predecessor \<open>p\<close> be a delete without a snapshot.  Both views compare the
  owner of \<open>e\<close> with the empty string: the action is UPDATED when the owner of \<open>e\<close> is
  empty and TRANSFERRED otherwise.
\<close>

theorem C10_predecessor_without_snapshot:
  assumes "\<not> item_is_delete e"
    and "item_created_at e \<noteq> item_updated_at e"
    and "item_is_delete p"
    and "evidence p = None"
  shows "ledger_action (tag_history ev_id (newer @ e # p # older) ! length newer)
           = (if item_owner e = [] then UPDATED else TRANSFERRED)
         \<and> history_actions (newer @ e # p # older) ! length newer
           = (if item_owner e = [] then UPDATED else TRANSFERRED)"
proof -
  have "item_owner p = []"
    using assms(4) by (simp add: item_owner_def dict_get_def empty_dict_def)
  then show ?thesis
    using assms(1,2)
    by (simp add: tag_history_nth history_actions_nth ledger_action_extend
        history_action_unfold)
qed

theorem C10_predecessor_without_snapshot_witness:
  "\<not> item_is_delete (record_at ''t3'' 30 (snapshot ''amy'' ''d3'' ''d4''))
   \<and> item_created_at (record_at ''t3'' 30 (snapshot ''amy'' ''d3'' ''d4''))
       \<noteq> item_updated_at (record_at ''t3'' 30 (snapshot ''amy'' ''d3'' ''d4''))
   \<and> item_is_delete (delete_at ''t2'' 20)
   \<and> evidence (delete_at ''t2'' 20) = None
   \<and> ledger_action (tag_history ''EV1''
        ([] @ record_at ''t3'' 30 (snapshot ''amy'' ''d3'' ''d4'')
           # delete_at ''t2'' 20 # []) ! length ([] :: history_item list))
       = TRANSFERRED
   \<and> history_actions ([] @ record_at ''t3'' 30 (snapshot ''amy'' ''d3'' ''d4'')
           # delete_at ''t2'' 20 # []) ! length ([] :: history_item list)
       = TRANSFERRED"
proof -
  have h1: "\<not> item_is_delete (record_at ''t3'' 30 (snapshot ''amy'' ''d3'' ''d4''))"
    by (simp add: item_is_delete_def record_at_def dict_get_def)
  have h2: "item_created_at (record_at ''t3'' 30 (snapshot ''amy'' ''d3'' ''d4''))
       \<noteq> item_updated_at (record_at ''t3'' 30 (snapshot ''amy'' ''d3'' ''d4''))"
    by (simp add: item_created_at_def item_updated_at_def record_at_def snapshot_def
        dict_get_def)
  have h3: "item_is_delete (delete_at ''t2'' 20)"
    by (simp add: item_is_delete_def delete_at_def dict_get_def)
  have h4: "evidence (delete_at ''t2'' 20) = None"
    by (simp add: delete_at_def)
  have own: "item_owner (record_at ''t3'' 30 (snapshot ''amy'' ''d3'' ''d4'')) \<noteq> []"
    by (simp add: item_owner_def record_at_def snapshot_def dict_get_def)
  from C10_predecessor_without_snapshot [OF h1 h2 h3 h4, of "''EV1''" "[]" "[]"] own
  show ?thesis using h1 h2 h3 h4 by simp
qed

subsection \<open>The sort\<close>

lemma float_keys_Some:
  "float_keys key xs = Some ps \<Longrightarrow> map snd ps = xs \<and> (\<forall>p\<in>set ps. key (snd p) = KFloat (fst p))"
proof (induction xs arbitrary: ps)
  case Nil
  then show ?case by simp
next
  case (Cons x xs)
  from Cons.prems obtain f qs where f: "key x = KFloat f" and qs: "float_keys key xs = Some qs"
    and ps: "ps = (f, x) # qs"
    by (auto split: sort_key.splits)
  from Cons.IH [OF qs] show ?case using f ps by simp
qed

lemma str_keys_Some:
  "str_keys key xs = Some ps \<Longrightarrow> map snd ps = xs \<and> (\<forall>p\<in>set ps. key (snd p) = KStr (fst p))"
proof (induction xs arbitrary: ps)
  case Nil
  then show ?case by simp
next
  case (Cons x xs)
  from Cons.prems obtain f qs where f: "key x = KStr f" and qs: "str_keys key xs = Some qs"
    and ps: "ps = (f, x) # qs"
    by (auto split: sort_key.splits)
  from Cons.IH [OF qs] show ?case using f ps by simp
qed

lemma float_keys_total:
  "(\<forall>x\<in>set xs. \<exists>f. key x = KFloat f) \<Longrightarrow> \<exists>ps. float_keys key xs = Some ps"
  by (induction xs) auto

lemma str_keys_total:
  "(\<forall>x\<in>set xs. \<exists>s. key x = KStr s) \<Longrightarrow> \<exists>ps. str_keys key xs = Some ps"
  by (induction xs) auto



lemma stable_keyed:
  fixes ps :: "('k::linorder \<times> 'a) list"
  assumes "\<forall>p\<in>set ps. key (snd p) = C (fst p)" and "inj C"
  shows "filter (\<lambda>y. key y = k) (map snd (sort_key fst ps)) = filter (\<lambda>y. key y = k) (map snd ps)"
proof (cases "\<exists>a. k = C a")
  case True
  then obtain a where k: "k = C a" ..
  have e: "\<And>qs. set qs \<subseteq> set ps \<Longrightarrow>
      filter (\<lambda>y. key y = k) (map snd qs) = map snd (filter (\<lambda>p. fst p = a) qs)"
  proof -
    fix qs :: "('k \<times> 'a) list" assume "set qs \<subseteq> set ps"
    then have "\<forall>p\<in>set qs. (key (snd p) = k) = (fst p = a)"
      using assms k by (fastforce dest: injD)
    then show "filter (\<lambda>y. key y = k) (map snd qs) = map snd (filter (\<lambda>p. fst p = a) qs)"
      by (induction qs) auto
  qed
  have "filter (\<lambda>y. key y = k) (map snd (sort_key fst ps))
      = map snd (filter (\<lambda>p. fst p = a) (sort_key fst ps))"
    by (rule e) simp
  also have "\<dots> = map snd (filter (\<lambda>p. fst p = a) ps)"
    by (simp add: sort_key_stable)
  also have "\<dots> = filter (\<lambda>y. key y = k) (map snd ps)"
    by (rule e [symmetric]) simp
  finally show ?thesis .
next
  case False
  have "\<And>qs. set qs \<subseteq> set ps \<Longrightarrow> filter (\<lambda>y. key y = k) (map snd qs) = []"
  proof -
    fix qs :: "('k \<times> 'a) list" assume "set qs \<subseteq> set ps"
    then have "\<forall>p\<in>set qs. key (snd p) \<noteq> k" using assms(1) False by auto
    then show "filter (\<lambda>y. key y = k) (map snd qs) = []" by (induction qs) auto
  qed
  from this [of ps] this [of "sort_key fst ps"] show ?thesis by simp
qed

lemma list_sort_stable:
  assumes "list_sort key xs = Inr ys"
  shows "filter (\<lambda>y. key y = k) ys = filter (\<lambda>y. key y = k) xs"
proof (cases "float_keys key xs")
  case (Some ps)
  then have ys: "ys = map snd (sort_key fst ps)" using assms by (simp add: list_sort_def)
  from float_keys_Some [OF Some] have "map snd ps = xs" "\<forall>p\<in>set ps. key (snd p) = KFloat (fst p)"
    by simp_all
  with stable_keyed [of ps key KFloat k] show ?thesis unfolding ys by (simp add: inj_on_def)
next
  case None
  then obtain ps where ps: "str_keys key xs = Some ps" and ys: "ys = map snd (sort_key fst ps)"
    using assms by (auto simp: list_sort_def split: option.splits)
  from str_keys_Some [OF ps] have "map snd ps = xs" "\<forall>p\<in>set ps. key (snd p) = KStr (fst p)"
    by simp_all
  with stable_keyed [of ps key KStr k] show ?thesis unfolding ys by (simp add: inj_on_def)
qed

lemma list_sort_mset:
  assumes "list_sort key xs = Inr ys"
  shows "mset ys = mset xs"
proof (cases "float_keys key xs")
  case (Some ps)
  then have ys: "ys = map snd (sort_key fst ps)" using assms by (simp add: list_sort_def)
  have "mset (map snd (sort_key fst ps)) = mset (map snd ps)" by simp
  with float_keys_Some [OF Some] show ?thesis unfolding ys by simp
next
  case None
  then obtain ps where ps: "str_keys key xs = Some ps" and ys: "ys = map snd (sort_key fst ps)"
    using assms by (auto simp: list_sort_def split: option.splits)
  have "mset (map snd (sort_key fst ps)) = mset (map snd ps)" by simp
  with str_keys_Some [OF ps] show ?thesis unfolding ys by simp
qed

lemma list_sort_returns:
  assumes "(\<forall>x\<in>set xs. \<exists>f. key x = KFloat f) \<or> (\<forall>x\<in>set xs. \<exists>s. key x = KStr s)"
  shows "\<exists>ys. list_sort key xs = Inr ys"
  using assms float_keys_total [of xs key] str_keys_total [of xs key]
  by (auto simp: list_sort_def split: option.splits)

lemma list_sort_raises:
  assumes "x \<in> set xs" "key x = KFloat f" "y \<in> set xs" "key y = KStr s"
  shows "list_sort key xs = Inl TypeError"
proof -
  have "float_keys key xs = None"
  proof (cases "float_keys key xs")
    case (Some ps)
    from float_keys_Some [OF Some] assms(3) obtain p where "p \<in> set ps" "snd p = y"
      "key (snd p) = KFloat (fst p)" by force
    with assms(4) show ?thesis by simp
  qed simp
  moreover have "str_keys key xs = None"
  proof (cases "str_keys key xs")
    case (Some ps)
    from str_keys_Some [OF Some] assms(1) obtain p where "p \<in> set ps" "snd p = x"
      "key (snd p) = KStr (fst p)" by force
    with assms(2) show ?thesis by simp
  qed simp
  ultimately show ?thesis by (simp add: list_sort_def)
qed

subsection \<open>Collecting and merging\<close>

lemma collect_txs_concat:
  assumes "\<forall>i\<in>set ids. \<not> raw_answer history_of i"
  shows "collect_txs history_of ids
     = Inr (concat (map (\<lambda>i. tag_history i (fetched history_of i)) ids))"
  using assms
proof (induction ids)
  case Nil
  show ?case by simp
next
  case (Cons i ids)
  then have IH: "collect_txs history_of ids
     = Inr (concat (map (\<lambda>i. tag_history i (fetched history_of i)) ids))" by simp
  from Cons.prems have nr: "\<not> raw_answer history_of i" by simp
  show ?case
  proof (cases "i = []")
    case True
    then show ?thesis using IH by (simp add: fetched_def)
  next
    case False
    then show ?thesis using IH nr
      by (auto simp: fetched_def raw_answer_def split: option.splits payload.splits)
  qed
qed

lemma collect_txs_raises:
  assumes "i \<in> set ids" and "raw_answer history_of i"
  shows "collect_txs history_of ids = Inl TypeError"
  using assms
proof (induction ids)
  case Nil
  then show ?case by simp
next
  case (Cons j ids)
  show ?case
  proof (cases "i = j")
    case True
    with Cons.prems(2) show ?thesis
      by (auto simp: raw_answer_def split: option.splits payload.splits)
  next
    case False
    with Cons have "collect_txs history_of ids = Inl TypeError" by simp
    then show ?thesis
      by (cases "collect_txs history_of ids") (auto split: option.splits payload.splits exn.splits)
  qed
qed

lemma collect_txs_Inr:
  assumes "collect_txs history_of ids = Inr all_txs"
  shows "all_txs = concat (map (\<lambda>i. tag_history i (fetched history_of i)) ids)"
proof -
  have "\<forall>i\<in>set ids. \<not> raw_answer history_of i"
    using assms collect_txs_raises [of _ ids history_of] by auto
  from collect_txs_concat [OF this] assms show ?thesis by simp
qed

lemma merge_ledger_Inr:
  assumes "merge_ledger fl history_of ids = Inr txs"
  shows "list_sort (get_sort_key fl)
           (concat (map (\<lambda>i. tag_history i (fetched history_of i)) ids)) = Inr txs"
proof -
  from assms obtain all_txs where a: "collect_txs history_of ids = Inr all_txs"
    and s: "list_sort (get_sort_key fl) all_txs = Inr txs"
    by (auto simp: merge_ledger_def split: sum.splits)
  from collect_txs_Inr [OF a] s show ?thesis by simp
qed

lemma get_sort_key_tag:
  "r \<in> set (tag_history i h) \<Longrightarrow> \<exists>r0\<in>set h. get_sort_key fl r = get_sort_key fl r0"
  by (induction h) (auto simp: get_sort_key_def history_item.defs tx.defs)

lemma struct_key:
  "has_struct_time r \<Longrightarrow> \<exists>f. get_sort_key fl r = KFloat f"
  by (auto simp: has_struct_time_def get_sort_key_def split: option.splits timestamp.splits)

lemma merge_ledger_returns:
  assumes "\<forall>i\<in>set ids. \<not> raw_answer history_of i"
    and "\<forall>i\<in>set ids. \<forall>r\<in>set (fetched history_of i). has_struct_time r"
  shows "\<exists>txs. merge_ledger fl history_of ids = Inr txs"
proof -
  let ?all = "concat (map (\<lambda>i. tag_history i (fetched history_of i)) ids)"
  have "\<forall>x\<in>set ?all. \<exists>f. get_sort_key fl x = KFloat f"
  proof
    fix x assume "x \<in> set ?all"
    then obtain i where i: "i \<in> set ids" and x: "x \<in> set (tag_history i (fetched history_of i))"
      by auto
    from get_sort_key_tag [OF x, of fl] obtain r0 where
      "r0 \<in> set (fetched history_of i)" "get_sort_key fl x = get_sort_key fl r0" by blast
    with assms(2) i struct_key [of r0 fl] show "\<exists>f. get_sort_key fl x = KFloat f" by auto
  qed
  then have "\<exists>ys. list_sort (get_sort_key fl) ?all = Inr ys"
    by (intro list_sort_returns) simp
  then show ?thesis
    by (simp add: merge_ledger_def collect_txs_concat [OF assms(1)])
qed


lemma failed_query_is_None:
  assumes "peer function_name args_list = CalledProcessError e_err e_msg"
  shows "query_chaincode loads peer function_name args_list = None"
  using assms by (simp add: query_chaincode_def run_peer_command_def Let_def)

lemma collect_txs_skips:
  assumes "history_of bad = None"
  shows "collect_txs history_of ids = collect_txs history_of (removeAll bad ids)"
  using assms
  by (induction ids) (auto split: option.splits payload.splits sum.splits)

lemma fetched_failed:
  "history_of bad = None \<Longrightarrow> fetched history_of bad = []"
  by (simp add: fetched_def)

lemma list_sort_mset_tagged:
  assumes "merge_ledger fl history_of ids = Inr txs"
  shows "mset txs = mset (concat (map (\<lambda>i. tag_history i (fetched history_of i)) ids))"
  by (rule list_sort_mset [OF merge_ledger_Inr [OF assms]])


subsection \<open>The sample gateway\<close>

lemma sample_history_B:
  "sample_history_of ''B'' = Some (Parsed [record_at ''b2'' 10 (snapshot ''bob'' ''d1'' ''d2''),
              record_at ''b1'' 10 (snapshot ''amy'' ''d1'' ''d1'')])"
  by (simp add: sample_history_of_def get_evidence_history_def query_chaincode_def
      run_peer_command_def sample_peer_def sample_loads_history_def)

lemma sample_history_A:
  "sample_history_of ''A'' = Some (Parsed [record_at ''a1'' 10 (snapshot ''carl'' ''d1'' ''d1'')])"
  by (simp add: sample_history_of_def get_evidence_history_def query_chaincode_def
      run_peer_command_def sample_peer_def sample_loads_history_def)

lemma sample_history_C: "sample_history_of ''C'' = None"
  by (simp add: sample_history_of_def get_evidence_history_def query_chaincode_def
      run_peer_command_def sample_peer_def Let_def)

lemma sample_merge_txids:
  "\<exists>txs. merge_ledger exact sample_history_of sample_ids = Inr txs
     \<and> map txId txs = [Some ''b2'', Some ''b1'', Some ''a1'']
     \<and> map asset_id txs = [''B'', ''B'', ''A'']
     \<and> map (get_sort_key exact) txs = [KFloat 10, KFloat 10, KFloat 10]"
  by (simp add: merge_ledger_def sample_ids_def sample_history_A sample_history_B sample_history_C
      list_sort_def get_sort_key_def record_at_def exact_def dict_get_def history_item.defs tx.defs)


lemma sample_merge_returns:
  "merge_ledger exact sample_history_of sample_ids = Inr sample_merged"
  using sample_merge_txids by (auto simp: sample_merged_def)


subsection \<open>Order of the merged ledger\<close>




text \<open>
  Claim C2, as the source has it.  The entries of the merged ledger that share a sort
  key stand in the order in which the view collected them: asset after asset in the
  order of the id list, and within one asset in the order of the fetched history,
  which is newest first.  The view neither reverses a history nor compares asset ids.
\<close>

theorem C2_ties_keep_collection_order:
  assumes "merge_ledger fl history_of ids = Inr txs"
  shows "filter (\<lambda>t. get_sort_key fl t = k) txs
     = filter (\<lambda>t. get_sort_key fl t = k)
         (concat (map (\<lambda>i. tag_history i (fetched history_of i)) ids))"
  by (rule list_sort_stable [OF merge_ledger_Inr [OF assms]])

theorem C2_ties_keep_collection_order_witness:
  "merge_ledger exact sample_history_of sample_ids = Inr sample_merged
   \<and> map txId (filter (\<lambda>t. get_sort_key exact t = KFloat 10) sample_merged)
       = [Some ''b2'', Some ''b1'', Some ''a1'']
   \<and> map txId (filter (\<lambda>t. get_sort_key exact t = KFloat 10)
         (concat (map (\<lambda>i. tag_history i (fetched sample_history_of i)) sample_ids)))
       = [Some ''b2'', Some ''b1'', Some ''a1'']"
proof -
  have m: "merge_ledger exact sample_history_of sample_ids = Inr sample_merged"
    by (rule sample_merge_returns)
  have c: "map txId (filter (\<lambda>t. get_sort_key exact t = KFloat 10)
         (concat (map (\<lambda>i. tag_history i (fetched sample_history_of i)) sample_ids)))
       = [Some ''b2'', Some ''b1'', Some ''a1'']"
    by (simp add: sample_ids_def fetched_def sample_history_A sample_history_B
        sample_history_C get_sort_key_def record_at_def exact_def dict_get_def
        history_item.defs tx.defs)
  from C2_ties_keep_collection_order [OF m, of "KFloat 10"] m c show ?thesis by simp
qed

text \<open>
  Claim C2 as stated fails on the sample gateway.  All three records carry the same
  timestamp.  The merged ledger shows \<open>b2\<close> before \<open>b1\<close> although the oldest-first pass
  over the history of \<open>B\<close> gives \<open>b1\<close> first, and it shows the records of \<open>B\<close> before
  the record of \<open>A\<close>.
\<close>

theorem C2_tie_order_counterexample:
  "merge_ledger exact sample_history_of sample_ids = Inr sample_merged
   \<and> map txId sample_merged = [Some ''b2'', Some ''b1'', Some ''a1'']
   \<and> map asset_id sample_merged = [''B'', ''B'', ''A'']
   \<and> map (get_sort_key exact) sample_merged = [KFloat 10, KFloat 10, KFloat 10]
   \<and> map txId (rev (tag_history ''B'' (fetched sample_history_of ''B''))) = [Some ''b1'', Some ''b2'']
   \<and> \<not> ties_follow_oldest_first (get_sort_key exact) sample_history_of sample_ids sample_merged
   \<and> \<not> ties_follow_asset_id (get_sort_key exact) sample_merged"
  by code_simp


subsection \<open>A history query that fails\<close>

text \<open>
  Claim C7, as the source has it.  When the history query for an id exits with an
  error, the query gives \<open>None\<close> and the view passes over the id: the merge is the merge
  over the other ids, and what it returns is a rearrangement of the tagged histories of
  the other ids.  The merge returns when no history came back as a text and every
  collected record has a dictionary timestamp.  No warning is recorded.
\<close>

theorem C7_failed_fetch_is_skipped:
  assumes "peer ''GetEvidenceHistory'' [bad] = CalledProcessError e_err e_msg"
  shows "get_evidence_history loads peer bad = None
     \<and> merge_ledger fl (get_evidence_history loads peer) ids
         = merge_ledger fl (get_evidence_history loads peer) (removeAll bad ids)
     \<and> (\<forall>txs. merge_ledger fl (get_evidence_history loads peer) ids = Inr txs \<longrightarrow>
           mset txs = mset (concat (map
             (\<lambda>i. tag_history i (fetched (get_evidence_history loads peer) i))
             (removeAll bad ids))))
     \<and> ((\<forall>i\<in>set ids. \<not> raw_answer (get_evidence_history loads peer) i)
          \<and> (\<forall>i\<in>set ids. \<forall>r\<in>set (fetched (get_evidence_history loads peer) i).
                has_struct_time r)
        \<longrightarrow> (\<exists>txs. merge_ledger fl (get_evidence_history loads peer) ids = Inr txs))"
proof -
  let ?H = "get_evidence_history loads peer"
  have n: "?H bad = None"
    using assms by (simp add: get_evidence_history_def failed_query_is_None)
  have m: "merge_ledger fl ?H ids = merge_ledger fl ?H (removeAll bad ids)"
    using collect_txs_skips [where history_of = ?H and bad = bad and ids = ids] n
    by (simp add: merge_ledger_def)
  have p: "\<forall>txs. merge_ledger fl ?H ids = Inr txs \<longrightarrow>
      mset txs = mset (concat (map (\<lambda>i. tag_history i (fetched ?H i)) (removeAll bad ids)))"
    using m list_sort_mset_tagged [of fl ?H "removeAll bad ids"] by simp
  from n m p merge_ledger_returns [of ids ?H fl] show ?thesis by blast
qed


theorem C7_failed_fetch_is_skipped_witness:
  "sample_peer ''GetEvidenceHistory'' [''C''] = CalledProcessError ''Error: endorsement failure'' ''exit status 1''
   \<and> list_all (\<lambda>i. \<not> raw_answer (get_evidence_history sample_loads_history sample_peer) i)
         sample_ids
   \<and> list_all (\<lambda>i. list_all has_struct_time
           (fetched (get_evidence_history sample_loads_history sample_peer) i)) sample_ids
   \<and> get_evidence_history sample_loads_history sample_peer ''C'' = None
   \<and> merge_ledger exact (get_evidence_history sample_loads_history sample_peer) sample_ids = Inr sample_merged
   \<and> mset sample_merged = mset (concat (map
        (\<lambda>i. tag_history i (fetched (get_evidence_history sample_loads_history sample_peer) i))
        [''B'', ''A'']))"
proof -
  let ?H = "get_evidence_history sample_loads_history sample_peer"
  have H: "?H = sample_history_of" by (simp add: sample_history_of_def)
  have f: "sample_peer ''GetEvidenceHistory'' [''C'']
      = CalledProcessError ''Error: endorsement failure'' ''exit status 1''"
    by (simp add: sample_peer_def)
  have a: "\<forall>i\<in>set sample_ids. \<not> raw_answer ?H i"
    unfolding H
    by (simp add: sample_ids_def raw_answer_def sample_history_A sample_history_B sample_history_C)
  have b: "\<forall>i\<in>set sample_ids. \<forall>r\<in>set (fetched ?H i). has_struct_time r"
    unfolding H
    by (simp add: sample_ids_def fetched_def sample_history_A sample_history_B sample_history_C
        has_struct_time_def record_at_def)
  have r: "removeAll ''C'' sample_ids = [''B'', ''A'']" by (simp add: sample_ids_def)
  note t = C7_failed_fetch_is_skipped [where peer = sample_peer and bad = "''C''" and loads = sample_loads_history
      and fl = exact and ids = sample_ids, OF f]
  from t a b obtain txs where m: "merge_ledger exact ?H sample_ids = Inr txs" by blast
  then have e: "txs = sample_merged" by (simp add: sample_merged_def H)
  from t m r have "mset txs = mset (concat (map (\<lambda>i. tag_history i (fetched ?H i)) [''B'', ''A'']))"
    by simp
  with t f a b m e show ?thesis by (simp add: list_all_iff)
qed


text \<open>
  Claim C7 as stated asks for a warning.  On the sample gateway the query for \<open>C\<close>
  fails; the first part of the view prints the banner, the progress line and the count,
  and its whole result is the result of the run in which \<open>C\<close> has an empty history.
\<close>

theorem C7_no_warning_counterexample:
  "sample_peer ''GetEvidenceHistory'' [''C'']
      = CalledProcessError ''Error: endorsement failure'' ''exit status 1''
   \<and> sample_peer_empty ''GetEvidenceHistory'' [''C''] = Completed ''[]'' []
   \<and> messages_of (collect_ledger sample_loads_ids sample_loads_history sample_peer exact ''Police'')
       = Some [Banner ''Police'', Fetching, Found 3 3]
   \<and> collect_ledger sample_loads_ids sample_loads_history sample_peer exact ''Police''
       = collect_ledger sample_loads_ids sample_loads_history sample_peer_empty exact ''Police''"
  by code_simp


subsection \<open>An answer that is not JSON\<close>

text \<open>
  Claim C8, as the source has it.  When the command succeeds and prints a text that is
  not empty and that does not decode, both command runners return a success whose data
  is the text, marked raw, and the chaincode query hands the text to its caller.
\<close>

theorem C8_raw_text_passthrough:
  assumes "out \<noteq> []" and "loads out = None"
  shows "run_peer_command loads (Completed out err) True
           = \<lparr>success = True, data = Some (Raw_text out), raw = Some True,
               cmd_output = None, cmd_error = None\<rparr>
     \<and> wrapper_run_peer_command loads (Completed out err) True
           = \<lparr>success = True, data = Some (Raw_text out), raw = Some True,
               cmd_output = None, cmd_error = None\<rparr>
     \<and> (peer function_name args_list = Completed out err \<longrightarrow>
          query_chaincode loads peer function_name args_list = Some (Raw_text out))"
  using assms
  by (simp add: run_peer_command_def wrapper_run_peer_command_def query_chaincode_def)


theorem C8_raw_text_passthrough_witness:
  "''<html>'' \<noteq> [] \<and> sample_loads_ids ''<html>'' = None
   \<and> run_peer_command sample_loads_ids (Completed ''<html>'' []) True
           = \<lparr>success = True, data = Some (Raw_text ''<html>''), raw = Some True,
               cmd_output = None, cmd_error = None\<rparr>
   \<and> wrapper_run_peer_command sample_loads_ids (Completed ''<html>'' []) True
           = \<lparr>success = True, data = Some (Raw_text ''<html>''), raw = Some True,
               cmd_output = None, cmd_error = None\<rparr>
   \<and> (\<lambda>f a. Completed ''<html>'' []) ''GetAllEvidence'' [] = Completed ''<html>'' []
   \<and> query_chaincode sample_loads_ids (\<lambda>f a. Completed ''<html>'' []) ''GetAllEvidence'' []
        = Some (Raw_text ''<html>'')"
proof -
  have h1: "''<html>'' \<noteq> []" by simp
  have h2: "sample_loads_ids ''<html>'' = None" by (simp add: sample_loads_ids_def)
  from C8_raw_text_passthrough [where loads = sample_loads_ids and out = "''<html>''" and err = "[]"
      and peer = "\<lambda>f a. Completed ''<html>'' []" and function_name = "''GetAllEvidence''"
      and args_list = "[]", OF h1 h2] h2
  show ?thesis by simp
qed


text \<open>
  Claim C8 as stated fails for the empty text, which does not decode either: the
  result is a success without data and without the raw mark, and the chaincode query
  gives \<open>None\<close>, as it does for a failed command.
\<close>

theorem C8_empty_stdout_counterexample:
  "silent_peer ''GetAllEvidence'' [] = Completed [] []
   \<and> sample_loads_ids [] = None
   \<and> success (run_peer_command sample_loads_ids (Completed [] []) True)
   \<and> raw (run_peer_command sample_loads_ids (Completed [] []) True) = None
   \<and> data (run_peer_command sample_loads_ids (Completed [] []) True) = None
   \<and> raw (wrapper_run_peer_command sample_loads_ids (Completed [] []) True) = None
   \<and> data (wrapper_run_peer_command sample_loads_ids (Completed [] []) True) = None
   \<and> query_chaincode sample_loads_ids silent_peer ''GetAllEvidence'' [] = None"
  by (simp add: silent_peer_def sample_loads_ids_def run_peer_command_def
      wrapper_run_peer_command_def query_chaincode_def)

subsection \<open>The chain pointers\<close>







subsection \<open>Resolving the genesis block\<close>



lemma genesis_fetch_failed:
  assumes "snd (fetch_block env) = None"
  shows "get_genesis_block env fs = (sentinel ''Fetch Failed'', no_files)"
  using assms by (simp add: get_genesis_block_def no_files_def Let_def)








lemma genesis_cleans_up:
  assumes "snd (fetch_block env) = None \<or> configtxlator_exists env"
  shows "snd (get_genesis_block env fs) = no_files"
proof (cases "snd (fetch_block env)")
  case None
  then show ?thesis by (simp add: genesis_fetch_failed)
next
  case (Some bytes)
  with assms have c: "configtxlator_exists env" by simp
  show ?thesis
    using Some c
    by (simp add: get_genesis_block_def no_files_def Let_def
        split: option.splits sum.splits)
qed




text \<open>
  Claim C6 fails on the path of the missing decode tool: the fetch has written the
  block file, the tool is not there, and the function returns with the block file still
  in place.  On every other path both files are gone (\<open>genesis_cleans_up\<close>).
\<close>

theorem C6_tool_missing_leaves_block_file:
  "fetch_block env_tool_missing = (Completed [] ''Received block: 0'', Some ''block 0'')
   \<and> \<not> configtxlator_exists env_tool_missing
   \<and> get_genesis_block env_tool_missing no_files
       = (sentinel ''Tool Missing'', \<lparr>block_file = Some ''block 0'', json_file = None\<rparr>)
   \<and> block_file (snd (get_genesis_block env_tool_missing no_files)) \<noteq> None"
  by code_simp

subsection \<open>The boxes of the single-asset view\<close>

lemma history_boxes_actions:
  assumes "history_boxes strftime data_list = Inr boxes"
  shows "map hb_action boxes = history_actions data_list"
  using assms
proof (induction data_list arbitrary: boxes)
  case Nil
  then show ?case by simp
next
  case (Cons item older)
  from Cons.prems obtain time rest where
    r: "history_boxes strftime older = Inr rest"
    and b: "boxes = \<lparr>hb_action = history_action item older, hb_time = time,
        hb_tx_id = dict_get (txId item) ''N/A'', hb_details = history_details item\<rparr> # rest"
    by (auto split: sum.splits)
  from Cons.IH [OF r] show ?case unfolding b by simp
qed

lemma get_history_actions:
  assumes "get_history loads_history peer strftime ev_id = Inr (Some boxes)"
  shows "\<exists>data_list. get_evidence_history loads_history peer ev_id = Some (Parsed data_list)
     \<and> map hb_action boxes = history_actions data_list"
proof -
  from assms obtain data_list where
    q: "query_chaincode loads_history peer ''GetEvidenceHistory'' [ev_id]
          = Some (Parsed data_list)"
    and h: "history_boxes strftime data_list = Inr boxes"
    by (auto simp: get_history_def split: option.splits payload.splits if_splits sum.splits)
  from history_boxes_actions [OF h] q
  show ?thesis by (auto simp: get_evidence_history_def)
qed

subsection \<open>The ledger view as a whole\<close>

lemma view_chain:
  assumes "view_blockchain_ledger loads_ids loads_history peer fl friendly_name env fs = Inr v"
    and "collect_ledger loads_ids loads_history peer fl friendly_name
           = Inr (Continue shown_lines all_txs)"
  shows "draw_chain (local_strftime env) (fst (get_genesis_block env fs)) all_txs
           = Inr (chain v)
       \<and> left_files v = snd (get_genesis_block env fs)
       \<and> printed v = shown_lines"
  using assms
  by (auto simp: view_blockchain_ledger_def split: prod.splits sum.splits)

end
